theory Spec2Isabelle
  imports Main
begin

section \<open>Strings: the slug conversion of \<^verbatim>\<open>pkg/rpc/server.go\<close>\<close>

text \<open>
  A Go string is a sequence of bytes, and so is a HOL \<open>string\<close>. The Go library functions
  \<^verbatim>\<open>strings.ToUpper\<close> and \<^verbatim>\<open>strings.ToLower\<close> take a fast path on strings whose bytes
  are all below \<^verbatim>\<open>utf8.RuneSelf\<close> (0x80): there they map the bytes \<^verbatim>\<open>'a'..'z'\<close>
  (resp. \<^verbatim>\<open>'A'..'Z'\<close>) and leave every other byte alone. On any other string they apply
  the Unicode case tables through \<^verbatim>\<open>strings.Map\<close>; those tables are not part of this
  repository and are taken as a parameter.
\<close>

record unicode_tables =
  MapToUpper :: "string \<Rightarrow> string"
  MapToLower :: "string \<Rightarrow> string"

definition isASCII :: "string \<Rightarrow> bool" where
  "isASCII s = list_all (\<lambda>c. (of_char c :: nat) < 128) s"

definition upper_byte :: "char \<Rightarrow> char" where
  "upper_byte c =
     (let n = (of_char c :: nat) in if 97 \<le> n \<and> n \<le> 122 then char_of (n - 32) else c)"

definition lower_byte :: "char \<Rightarrow> char" where
  "lower_byte c =
     (let n = (of_char c :: nat) in if 65 \<le> n \<and> n \<le> 90 then char_of (n + 32) else c)"

definition ToUpper :: "unicode_tables \<Rightarrow> string \<Rightarrow> string" where
  "ToUpper U s = (if isASCII s then map upper_byte s else MapToUpper U s)"

definition ToLower :: "unicode_tables \<Rightarrow> string \<Rightarrow> string" where
  "ToLower U s = (if isASCII s then map lower_byte s else MapToLower U s)"

text \<open>
  \<^verbatim>\<open>strings.Split(s, sep)\<close> for a separator of one byte: the substrings between the
  separators, in order; a string without separator is its own single token, and the
  empty string gives one empty token.
\<close>

fun Split :: "string \<Rightarrow> char \<Rightarrow> string list" where
  "Split [] sep = [[]]"
| "Split (c # cs) sep =
     (if c = sep then [] # Split cs sep
      else (case Split cs sep of [] \<Rightarrow> [[c]] | p # ps \<Rightarrow> (c # p) # ps))"

text \<open>\<^verbatim>\<open>strings.Join(parts, sep)\<close>.\<close>

fun Join :: "string list \<Rightarrow> string \<Rightarrow> string" where
  "Join [] sep = []"
| "Join [p] sep = p"
| "Join (p # q # ps) sep = p @ sep @ Join (q # ps) sep"

text \<open>
  The loop of \<^verbatim>\<open>kebabToPascal\<close>:
  \<^verbatim>\<open>for i, part := range parts { if len(part) > 0 { parts[i] = ... } }\<close>,
  with \<open>part[:1]\<close> as \<open>take 1 part\<close> and \<open>part[1:]\<close> as \<open>drop 1 part\<close>.
\<close>

function capitalize_parts :: "unicode_tables \<Rightarrow> string list \<Rightarrow> nat \<Rightarrow> string list" where
  "capitalize_parts U parts i =
     (if i < length parts then
        (let part = parts ! i in
         if length part > 0
         then capitalize_parts U
                (parts[i := ToUpper U (take 1 part) @ ToLower U (drop 1 part)]) (i + 1)
         else capitalize_parts U parts (i + 1))
      else parts)"
  by pat_completeness auto
termination
  by (relation "measure (\<lambda>(U, parts, i). length parts - i)") auto

declare capitalize_parts.simps [simp del]

definition kebabToPascal :: "unicode_tables \<Rightarrow> string \<Rightarrow> string" where
  "kebabToPascal U kebab = Join (capitalize_parts U (Split kebab (CHR ''-'')) 0) []"


subsection \<open>Characters: UTF-8 and \<^verbatim>\<open>strings.Map\<close>\<close>











section \<open>Reflection: types, values and method sets\<close>

text \<open>The kinds of \<^verbatim>\<open>reflect.Kind\<close>.\<close>

datatype Kind =
    Invalid | Bool
  | Int | Int8 | Int16 | Int32 | Int64
  | Uint | Uint8 | Uint16 | Uint32 | Uint64 | Uintptr
  | Float32 | Float64 | Complex64 | Complex128
  | Array | Chan | Func | Interface | Map | Pointer | Slice
  | String | Struct | UnsafePointer

text \<open>
  A \<^verbatim>\<open>reflect.Type\<close>, as far as the server looks at it: its name, its kind, and whether
  its method set satisfies the \<^verbatim>\<open>error\<close> interface
  (\<^verbatim>\<open>t.Implements(reflect.TypeOf((*error)(nil)).Elem())\<close>).
\<close>

record go_type =
  tname :: string
  kind :: Kind
  implementsError :: bool

text \<open>
  A \<^verbatim>\<open>reflect.Value\<close>: the type it was obtained at (for a result of \<^verbatim>\<open>Call\<close>, the
  declared result type) and what it holds, either nil or some content.
\<close>

datatype go_data = NilData | Content string

record go_value =
  vtype :: go_type
  vdata :: go_data

datatype panic =
    NilPointerDereference
  | NewOfNilType
  | IsNilOnKind Kind
  | MethodByNameOnZeroValue
  | CallOnZeroValue
  | CallPanicked
  | IndexOutOfRange
  | TypeAssertionFailed

text \<open>
  \<^verbatim>\<open>Value.IsNil\<close> is defined on chan, func, interface, map, pointer, slice and unsafe
  pointer values and panics on a value of any other kind.
\<close>

definition nillable :: "Kind \<Rightarrow> bool" where
  "nillable k = (k = Chan \<or> k = Func \<or> k = Interface \<or> k = Map \<or> k = Pointer
                 \<or> k = Slice \<or> k = UnsafePointer)"

definition IsNil :: "go_value \<Rightarrow> panic + bool" where
  "IsNil v = (if nillable (kind (vtype v)) then Inr (vdata v = NilData)
              else Inl (IsNilOnKind (kind (vtype v))))"

text \<open>
  The type of a method as \<^verbatim>\<open>reflect.Method.Type\<close> gives it: a function type whose first
  input is the receiver. \<^verbatim>\<open>In\<close> and \<^verbatim>\<open>Out\<close> are read by the server only at indices its
  checks of \<^verbatim>\<open>NumIn\<close> and \<^verbatim>\<open>NumOut\<close> have put in range.
\<close>

record func_type =
  Recv :: go_type
  Params :: "go_type list"
  Results :: "go_type list"

definition NumIn :: "func_type \<Rightarrow> nat" where
  "NumIn ft = length (Recv ft # Params ft)"

definition In :: "func_type \<Rightarrow> nat \<Rightarrow> go_type" where
  "In ft i = (Recv ft # Params ft) ! i"

definition NumOut :: "func_type \<Rightarrow> nat" where
  "NumOut ft = length (Results ft)"

definition Out :: "func_type \<Rightarrow> nat \<Rightarrow> go_type" where
  "Out ft i = Results ft ! i"

record reflect_Method =
  Name :: string
  PkgPath :: string
  FuncType :: func_type

text \<open>
  A service instance, the dynamic value behind the \<^verbatim>\<open>interface{}\<close> handed to
  \<^verbatim>\<open>RegisterService\<close>: its identity, the methods \<^verbatim>\<open>reflect.TypeOf(service).Method(i)\<close>
  enumerates for \<^verbatim>\<open>0 \<le> i < NumMethod()\<close> (the same methods that \<^verbatim>\<open>MethodByName\<close>
  finds), and what calling one of them by reflection does: \<open>invoke inst name args\<close> is
  \<open>Some results\<close> when \<^verbatim>\<open>reflect.Value.Call\<close> accepts \<open>args\<close> for the method
  \<open>name\<close> and the method returns \<open>results\<close>, and \<open>None\<close> when the call panics, in
  \<^verbatim>\<open>reflect\<close> or in the method. A nil \<^verbatim>\<open>interface{}\<close> is \<open>None\<close>.
\<close>

record service_instance =
  addr :: nat
  dyn_methods :: "reflect_Method list"
  invoke :: "string \<Rightarrow> go_value list \<Rightarrow> go_value list option"

section \<open>The registry\<close>

record RPCMethod =
  Method :: reflect_Method
  Type :: "go_type option"
  HasParams :: bool
  HasResult :: bool
  ResultType :: "go_type option"

record RPCService =
  service :: "service_instance option"
  methods :: "string \<rightharpoonup> RPCMethod"
  serviceName :: string

record Server =
  services :: "string \<rightharpoonup> RPCService"

definition NewServer :: Server where
  "NewServer = \<lparr>services = Map.empty\<rparr>"

text \<open>
  The descriptor \<^verbatim>\<open>RegisterService\<close> fills in for a method that passed its checks
  (lines 216 to 239): \<^verbatim>\<open>Type\<close> and \<^verbatim>\<open>ResultType\<close> keep their zero value nil unless set.
\<close>

definition methodInfo :: "reflect_Method \<Rightarrow> RPCMethod" where
  "methodInfo method =
     (let numIn = NumIn (FuncType method);
          numOut = NumOut (FuncType method);
          info0 = \<lparr>Method = method, Type = None, HasParams = False, HasResult = False,
                   ResultType = None\<rparr>;
          info1 = (if numIn = 2
                   then info0\<lparr>HasParams := True, Type := Some (In (FuncType method) 1)\<rparr>
                   else info0\<lparr>HasParams := False, Type := None\<rparr>)
      in if numOut = 2
         then info1\<lparr>HasResult := True, ResultType := Some (Out (FuncType method) 0)\<rparr>
         else info1\<lparr>HasResult := False\<rparr>)"

text \<open>
  The loop over the methods of the service type (lines 189 to 243); every
  \<^verbatim>\<open>continue\<close> goes on with the map unchanged.
\<close>

fun register_methods ::
  "reflect_Method list \<Rightarrow> (string \<rightharpoonup> RPCMethod) \<Rightarrow> (string \<rightharpoonup> RPCMethod)" where
  "register_methods [] ms = ms"
| "register_methods (method # rest) ms =
     (if PkgPath method \<noteq> [] then register_methods rest ms
      else let numIn = NumIn (FuncType method) in
      if numIn \<noteq> 1 \<and> numIn \<noteq> 2 then register_methods rest ms
      else let numOut = NumOut (FuncType method) in
      if numOut \<noteq> 1 \<and> numOut \<noteq> 2 then register_methods rest ms
      else let lastOut = Out (FuncType method) (numOut - 1) in
      if \<not> implementsError lastOut then register_methods rest ms
      else register_methods rest (ms(Name method \<mapsto> methodInfo method)))"

text \<open>
  \<^verbatim>\<open>RegisterService\<close> returns its error (\<open>None\<close> is nil) and the server it leaves behind.
  The log lines it prints are not part of the state.
\<close>

definition RegisterService ::
  "Server \<Rightarrow> string \<Rightarrow> service_instance option \<Rightarrow> string option \<times> Server" where
  "RegisterService s name srv =
     (let svc = \<lparr>service = srv, methods = Map.empty, serviceName = name\<rparr> in
      case srv of
        None \<Rightarrow> (None, s\<lparr>services := (services s)(name \<mapsto> svc)\<rparr>)
      | Some inst \<Rightarrow>
          (let svc' = svc\<lparr>methods := register_methods (dyn_methods inst) (methods svc)\<rparr>
           in (None, s\<lparr>services := (services s)(name \<mapsto> svc')\<rparr>)))"

text \<open>
  The eligibility rule in the words of the specification: the method is exported, takes
  no parameter or exactly one beyond the receiver, and returns one value or two, the last
  of which implements \<^verbatim>\<open>error\<close>.
\<close>

definition exported :: "reflect_Method \<Rightarrow> bool" where
  "exported m = (PkgPath m = [])"

definition eligible :: "reflect_Method \<Rightarrow> bool" where
  "eligible m =
     (exported m
      \<and> (length (Params (FuncType m)) = 0 \<or> length (Params (FuncType m)) = 1)
      \<and> (length (Results (FuncType m)) = 1 \<or> length (Results (FuncType m)) = 2)
      \<and> implementsError (last (Results (FuncType m))))"

section \<open>Dispatch\<close>

text \<open>
  A request event, as far as the handlers use it: the path values of the route, and
  \<^verbatim>\<open>e.BindBody\<close>, which decodes the body of this request into a fresh value of the type
  it is given and returns the decoder's error message or what was decoded.
\<close>

record RequestEvent =
  PathValue :: "string \<Rightarrow> string"
  BindBody :: "go_type \<Rightarrow> string + go_data"

text \<open>
  What a handler hands to \<^verbatim>\<open>e.JSON\<close>: an error made by \<^verbatim>\<open>fmt.Errorf\<close> (its message), a
  value obtained from a result by \<^verbatim>\<open>Interface()\<close>, or a \<^verbatim>\<open>map[string]string\<close>.
\<close>

datatype body =
    ErrorfBody string
  | ValueBody go_value
  | MapBody "(string \<times> string) list"

text \<open>
  A handler either writes one response with \<^verbatim>\<open>e.JSON(status, body)\<close> or panics. On
  its way it may decode the request body (\<open>Bind\<close>) and call the method value with
  arguments (\<open>Invoke\<close>); the handlers return the list of these effects, in order, with
  the outcome. No method of the service runs unless the list holds an \<open>Invoke\<close>.
\<close>

datatype outcome = JSON nat body | Panicked panic

datatype event = Bind go_type | Invoke string "go_value list"

definition StatusOK :: nat where "StatusOK = 200"
definition StatusBadRequest :: nat where "StatusBadRequest = 400"
definition StatusNotFound :: nat where "StatusNotFound = 404"
definition StatusInternalServerError :: nat where "StatusInternalServerError = 500"

definition quoted :: "string \<Rightarrow> string" where
  "quoted s = [CHR 0x27] @ s @ [CHR 0x27]"

definition service_not_found :: "string \<Rightarrow> body" where
  "service_not_found servName =
     ErrorfBody (''Service '' @ quoted servName @ '' not found'')"

definition method_not_found :: "string \<Rightarrow> string \<Rightarrow> body" where
  "method_not_found methodName servName =
     ErrorfBody (''Method '' @ quoted methodName @ '' not found in service ''
                 @ quoted servName)"

definition signature_mismatch :: "string \<Rightarrow> body" where
  "signature_mismatch methodName =
     ErrorfBody (''Method '' @ quoted methodName @ '' does not accept a string parameter'')"

definition invalid_parameters :: "string \<Rightarrow> body" where
  "invalid_parameters err = ErrorfBody (''Invalid parameters: '' @ err)"

text \<open>
  \<^verbatim>\<open>reflect.ValueOf(service.service).MethodByName(name)\<close>: it panics on the zero Value
  that \<^verbatim>\<open>ValueOf(nil)\<close> is, and gives the zero Value when the instance has no exported
  method of that name. \<^verbatim>\<open>Call\<close> panics on the zero Value.
\<close>

datatype method_value = ZeroValue | BoundMethod service_instance reflect_Method

definition MethodByName :: "service_instance option \<Rightarrow> string \<Rightarrow> panic + method_value" where
  "MethodByName srv name =
     (case srv of
        None \<Rightarrow> Inl MethodByNameOnZeroValue
      | Some inst \<Rightarrow>
          (case find (\<lambda>m. Name m = name) (dyn_methods inst) of
             None \<Rightarrow> Inr ZeroValue
           | Some m \<Rightarrow> Inr (BoundMethod inst m)))"

definition Call :: "method_value \<Rightarrow> go_value list \<Rightarrow> panic + go_value list" where
  "Call mv args =
     (case mv of
        ZeroValue \<Rightarrow> Inl CallOnZeroValue
      | BoundMethod inst m \<Rightarrow>
          (case invoke inst (Name m) args of
             None \<Rightarrow> Inl CallPanicked
           | Some results \<Rightarrow> Inr results))"

text \<open>\<open>results[i]\<close>: indexing a slice out of range panics.\<close>

definition index :: "'a list \<Rightarrow> nat \<Rightarrow> panic + 'a" where
  "index xs i = (if i < length xs then Inr (xs ! i) else Inl IndexOutOfRange)"

text \<open>
  \<^verbatim>\<open>results[i].Interface().(error)\<close>: the assertion panics unless the value implements
  \<^verbatim>\<open>error\<close>, which the model reads off the value's type.
\<close>

definition assert_error :: "go_value \<Rightarrow> panic + go_value" where
  "assert_error v = (if implementsError (vtype v) then Inr v else Inl TypeAssertionFailed)"

text \<open>
  The block under \<^verbatim>\<open>// Check for error\<close>, which \<^verbatim>\<open>handleRPC\<close> (lines 316 to 333) and
  \<^verbatim>\<open>handleRPCGet\<close> (lines 376 to 393) both end with, word for word.
\<close>

definition check_for_error :: "RPCMethod \<Rightarrow> go_value list \<Rightarrow> outcome" where
  "check_for_error method results =
     (if HasResult method then
        (case index results 1 of
           Inl p \<Rightarrow> Panicked p
         | Inr r1 \<Rightarrow>
             (case IsNil r1 of
                Inl p \<Rightarrow> Panicked p
              | Inr isnil \<Rightarrow>
                  if \<not> isnil then
                    (case assert_error r1 of
                       Inl p \<Rightarrow> Panicked p
                     | Inr err \<Rightarrow> JSON StatusInternalServerError (ValueBody err))
                  else
                    (case index results 0 of
                       Inl p \<Rightarrow> Panicked p
                     | Inr response \<Rightarrow> JSON StatusOK (ValueBody response))))
      else
        (case index results 0 of
           Inl p \<Rightarrow> Panicked p
         | Inr r0 \<Rightarrow>
             (case IsNil r0 of
                Inl p \<Rightarrow> Panicked p
              | Inr isnil \<Rightarrow>
                  if \<not> isnil then
                    (case assert_error r0 of
                       Inl p \<Rightarrow> Panicked p
                     | Inr err \<Rightarrow> JSON StatusInternalServerError (ValueBody err))
                  else JSON StatusOK (MapBody [(''status'', ''ok'')]))))"

text \<open>
  \<^verbatim>\<open>handleRPC\<close>. The method value is looked up before the body is decoded;
  \<^verbatim>\<open>reflect.New(argType)\<close> panics on a nil type; the argument handed to the method
  is the decoded value, of type \<open>argType\<close>.
\<close>

definition handleRPC ::
  "Server \<Rightarrow> RequestEvent \<Rightarrow> string \<Rightarrow> string \<Rightarrow> event list \<times> outcome" where
  "handleRPC s e servName methodName =
     (case services s servName of
        None \<Rightarrow> ([], JSON StatusNotFound (service_not_found servName))
      | Some svc \<Rightarrow>
     (case methods svc methodName of
        None \<Rightarrow> ([], JSON StatusNotFound (method_not_found methodName servName))
      | Some method \<Rightarrow>
     (case MethodByName (service svc) (Name (Method method)) of
        Inl p \<Rightarrow> ([], Panicked p)
      | Inr methodValue \<Rightarrow>
          if HasParams method then
            (case Type method of
               None \<Rightarrow> ([], Panicked NewOfNilType)
             | Some argType \<Rightarrow>
                 (case BindBody e argType of
                    Inl err \<Rightarrow> ([Bind argType], JSON StatusBadRequest (invalid_parameters err))
                  | Inr d \<Rightarrow>
                      (let arg = \<lparr>vtype = argType, vdata = d\<rparr>;
                           trace = [Bind argType, Invoke (Name (Method method)) [arg]]
                       in case Call methodValue [arg] of
                            Inl p \<Rightarrow> (trace, Panicked p)
                          | Inr results \<Rightarrow> (trace, check_for_error method results))))
          else
            (let trace = [Invoke (Name (Method method)) []]
             in case Call methodValue [] of
                  Inl p \<Rightarrow> (trace, Panicked p)
                | Inr results \<Rightarrow> (trace, check_for_error method results)))))"

text \<open>
  \<^verbatim>\<open>handleRPCGet\<close>. \<open>method.Type\<close> is nil for a method without parameter, and
  \<^verbatim>\<open>argType.Kind()\<close> on a nil \<^verbatim>\<open>reflect.Type\<close> is a nil pointer dereference.
  \<^verbatim>\<open>reflect.ValueOf(id)\<close> is a value of the type \<^verbatim>\<open>string\<close>.
\<close>

definition string_type :: go_type where
  "string_type = \<lparr>tname = ''string'', kind = String, implementsError = False\<rparr>"

definition ValueOf_string :: "string \<Rightarrow> go_value" where
  "ValueOf_string x = \<lparr>vtype = string_type, vdata = Content x\<rparr>"

definition handleRPCGet ::
  "Server \<Rightarrow> RequestEvent \<Rightarrow> string \<Rightarrow> string \<Rightarrow> string \<Rightarrow> event list \<times> outcome" where
  "handleRPCGet s e servName entityName ident =
     (case services s servName of
        None \<Rightarrow> ([], JSON StatusNotFound (service_not_found servName))
      | Some svc \<Rightarrow>
     (let methodName = ''Get'' @ entityName in
      case methods svc methodName of
        None \<Rightarrow> ([], JSON StatusNotFound (method_not_found methodName servName))
      | Some method \<Rightarrow>
     (case Type method of
        None \<Rightarrow> ([], Panicked NilPointerDereference)
      | Some argType \<Rightarrow>
          if kind argType \<noteq> String
          then ([], JSON StatusBadRequest (signature_mismatch methodName))
          else
            (case MethodByName (service svc) (Name (Method method)) of
               Inl p \<Rightarrow> ([], Panicked p)
             | Inr methodValue \<Rightarrow>
                 (let arg = ValueOf_string ident;
                      trace = [Invoke (Name (Method method)) [arg]]
                  in case Call methodValue [arg] of
                       Inl p \<Rightarrow> (trace, Panicked p)
                     | Inr results \<Rightarrow> (trace, check_for_error method results))))))"

text \<open>The two route handlers: \<^verbatim>\<open>POST /{service}/{method}\<close> and
  \<^verbatim>\<open>GET /{service}/{entity}/{id}\<close>.\<close>

definition handle :: "unicode_tables \<Rightarrow> Server \<Rightarrow> RequestEvent \<Rightarrow> event list \<times> outcome" where
  "handle U s e =
     (let serv = PathValue e ''service'';
          method = PathValue e ''method'';
          method' = kebabToPascal U method
      in handleRPC s e serv method')"

definition handleGet :: "unicode_tables \<Rightarrow> Server \<Rightarrow> RequestEvent \<Rightarrow> event list \<times> outcome" where
  "handleGet U s e =
     (let serv = PathValue e ''service'';
          entity = PathValue e ''entity'';
          ident = PathValue e ''id'';
          entity' = kebabToPascal U entity
      in handleRPCGet s e serv entity' ident)"

section \<open>Registered services and well-typed calls\<close>

text \<open>
  The registry entry for \<open>name\<close> is the descriptor \<^verbatim>\<open>RegisterService\<close> stores for the
  instance \<open>inst\<close>.
\<close>

definition registered :: "Server \<Rightarrow> string \<Rightarrow> service_instance \<Rightarrow> bool" where
  "registered s name inst =
     (services s name =
        Some \<lparr>service = Some inst,
              methods = register_methods (dyn_methods inst) Map.empty,
              serviceName = name\<rparr>)"

text \<open>
  Two facts of Go that the model states where it needs them: the methods of a type have
  distinct names, and the values a call returns have the result types the method
  declares.
\<close>

definition distinct_names :: "service_instance \<Rightarrow> bool" where
  "distinct_names inst = distinct (map Name (dyn_methods inst))"

definition returns :: "service_instance \<Rightarrow> reflect_Method \<Rightarrow> go_value list \<Rightarrow> go_value list \<Rightarrow> bool" where
  "returns inst m args results =
     (invoke inst (Name m) args = Some results
      \<and> map vtype results = Results (FuncType m))"

text \<open>
  The names under which \<^verbatim>\<open>RegisterService\<close> publishes methods for an instance,
  according to the eligibility rule; none for a nil instance.
\<close>

definition eligible_names :: "service_instance option \<Rightarrow> string set" where
  "eligible_names srv =
     (case srv of
        None \<Rightarrow> {}
      | Some inst \<Rightarrow> Name ` {m \<in> set (dyn_methods inst). eligible m})"

text \<open>
  The arguments the two handlers hand to a method \<open>m\<close>, when they get as far as calling
  it. \<^verbatim>\<open>handleRPC\<close> calls a method without parameter with no argument and a method
  with one parameter with the decoded request body, unless decoding fails;
  \<^verbatim>\<open>handleRPCGet\<close> calls a method whose parameter is of kind \<^verbatim>\<open>reflect.String\<close> with
  the id of the path.
\<close>

definition post_args :: "RequestEvent \<Rightarrow> reflect_Method \<Rightarrow> go_value list option" where
  "post_args e m =
     (case Params (FuncType m) of
        [] \<Rightarrow> Some []
      | [T] \<Rightarrow> (case BindBody e T of
                  Inl err \<Rightarrow> None
                | Inr d \<Rightarrow> Some [\<lparr>vtype = T, vdata = d\<rparr>])
      | _ \<Rightarrow> None)"

definition get_args :: "RequestEvent \<Rightarrow> reflect_Method \<Rightarrow> go_value list option" where
  "get_args e m =
     (case Params (FuncType m) of
        [T] \<Rightarrow> if kind T = String then Some [ValueOf_string (PathValue e ''id'')] else None
      | _ \<Rightarrow> None)"

section \<open>Fixtures\<close>

text \<open>The predeclared interface type \<^verbatim>\<open>error\<close> and its nil value.\<close>

definition error_type :: go_type where
  "error_type = \<lparr>tname = ''error'', kind = Interface, implementsError = True\<rparr>"

definition nil_error :: go_value where
  "nil_error = \<lparr>vtype = error_type, vdata = NilData\<rparr>"

definition an_error :: "string \<Rightarrow> go_value" where
  "an_error msg = \<lparr>vtype = error_type, vdata = Content msg\<rparr>"

definition struct_type :: "string \<Rightarrow> go_type" where
  "struct_type n = \<lparr>tname = n, kind = Struct, implementsError = False\<rparr>"

definition pointer_type :: "string \<Rightarrow> go_type" where
  "pointer_type n = \<lparr>tname = n, kind = Pointer, implementsError = False\<rparr>"

definition mk_method :: "string \<Rightarrow> go_type \<Rightarrow> go_type list \<Rightarrow> go_type list \<Rightarrow> reflect_Method" where
  "mk_method n recv ps rs =
     \<lparr>Name = n, PkgPath = [], FuncType = \<lparr>Recv = recv, Params = ps, Results = rs\<rparr>\<rparr>"

text \<open>
  \<^verbatim>\<open>TestService\<close> of \<^verbatim>\<open>pkg/rpc/server_test.go\<close>, its seven methods in the order of
  \<^verbatim>\<open>reflect\<close> (sorted by name).
\<close>

definition TestRequest :: go_type where "TestRequest = struct_type ''rpc.TestRequest''"
definition TestResponse :: go_type where "TestResponse = struct_type ''rpc.TestResponse''"
definition StatsResponse :: go_type where "StatsResponse = struct_type ''rpc.StatsResponse''"
definition TestService_type :: go_type where "TestService_type = pointer_type ''*rpc.TestService''"

definition TestService_methods :: "reflect_Method list" where
  "TestService_methods =
     [mk_method ''CreateUser'' TestService_type [TestRequest] [TestResponse, error_type],
      mk_method ''GetStats'' TestService_type [] [StatsResponse, error_type],
      mk_method ''GetUser'' TestService_type [string_type] [TestResponse, error_type],
      mk_method ''InvalidMethod1'' TestService_type [TestRequest] [TestResponse],
      mk_method ''InvalidMethod2'' TestService_type [TestRequest, string_type]
        [TestResponse, error_type],
      mk_method ''RefreshCache'' TestService_type [] [error_type],
      mk_method ''UpdateUser'' TestService_type [TestRequest] [TestResponse, error_type]]"

definition TestService_invoke :: "string \<Rightarrow> go_value list \<Rightarrow> go_value list option" where
  "TestService_invoke n args =
     (if n = ''CreateUser'' \<or> n = ''UpdateUser'' then
        (case args of
           [req] \<Rightarrow> Some [\<lparr>vtype = TestResponse, vdata = vdata req\<rparr>, nil_error]
         | _ \<Rightarrow> None)
      else if n = ''GetUser'' then
        (case args of
           [ident] \<Rightarrow> Some [\<lparr>vtype = TestResponse, vdata = vdata ident\<rparr>, nil_error]
         | _ \<Rightarrow> None)
      else if n = ''GetStats'' then
        (case args of
           [] \<Rightarrow> Some [\<lparr>vtype = StatsResponse, vdata = Content ''100 active''\<rparr>, nil_error]
         | _ \<Rightarrow> None)
      else if n = ''RefreshCache'' then
        (case args of [] \<Rightarrow> Some [nil_error] | _ \<Rightarrow> None)
      else None)"

definition TestService :: service_instance where
  "TestService = \<lparr>addr = 1, dyn_methods = TestService_methods, invoke = TestService_invoke\<rparr>"

text \<open>
  \<^verbatim>\<open>ProductsService\<close> of the example server (\<^verbatim>\<open>cmd/server\<close>), over a record store
  whose every operation fails with the message \<open>msg\<close>: each method hands the store's
  error on.
\<close>

definition Product :: go_type where "Product = struct_type ''main.Product''"
definition ProductsService_type :: go_type where
  "ProductsService_type = pointer_type ''*main.ProductsService''"

definition ProductsService_methods :: "reflect_Method list" where
  "ProductsService_methods =
     [mk_method ''Clean'' ProductsService_type [] [error_type],
      mk_method ''Create'' ProductsService_type [Product] [Product, error_type],
      mk_method ''Delete'' ProductsService_type [struct_type ''main.DeleteRequest'']
        [error_type],
      mk_method ''GetProduct'' ProductsService_type [string_type] [Product, error_type],
      mk_method ''List'' ProductsService_type [struct_type ''main.ListRequest'']
        [\<lparr>tname = ''[]main.Product'', kind = Slice, implementsError = False\<rparr>, error_type],
      mk_method ''Update'' ProductsService_type [struct_type ''main.UpdateRequest'']
        [Product, error_type]]"

definition ProductsService_failing :: "string \<Rightarrow> service_instance" where
  "ProductsService_failing msg =
     \<lparr>addr = 2, dyn_methods = ProductsService_methods,
      invoke = (\<lambda>n args.
        if n = ''Clean'' \<and> args = [] then Some [an_error msg]
        else if n = ''Delete'' \<and> length args = 1 then Some [an_error msg]
        else if (n = ''Create'' \<or> n = ''GetProduct'' \<or> n = ''Update'') \<and> length args = 1
        then Some [\<lparr>vtype = Product, vdata = Content []\<rparr>, an_error msg]
        else if n = ''List'' \<and> length args = 1
        then Some [\<lparr>vtype = \<lparr>tname = ''[]main.Product'', kind = Slice,
                                implementsError = False\<rparr>, vdata = NilData\<rparr>,
                   an_error msg]
        else None)\<rparr>"

text \<open>
  A service with a failure-only method on each route, \<^verbatim>\<open>Flush() error\<close> and
  \<^verbatim>\<open>GetEntry(id string) error\<close>, and a method \<^verbatim>\<open>GetRange(req RangeRequest) error\<close>
  whose parameter is a struct; all three return nil.
\<close>

definition JournalService :: service_instance where
  "JournalService =
     \<lparr>addr = 3,
      dyn_methods =
        [mk_method ''Flush'' (pointer_type ''*main.JournalService'') [] [error_type],
         mk_method ''GetEntry'' (pointer_type ''*main.JournalService'') [string_type]
           [error_type],
         mk_method ''GetRange'' (pointer_type ''*main.JournalService'')
           [struct_type ''main.RangeRequest''] [error_type]],
      invoke = (\<lambda>n args.
        if n = ''Flush'' \<and> args = [] then Some [nil_error]
        else if (n = ''GetEntry'' \<or> n = ''GetRange'') \<and> length args = 1
        then Some [nil_error]
        else None)\<rparr>"

text \<open>
  A service whose methods declare as failure a struct type that implements \<^verbatim>\<open>error\<close>
  with a value receiver (\<^verbatim>\<open>type CheckError struct{...}\<close>,
  \<^verbatim>\<open>func (e CheckError) Error() string\<close>): \<^verbatim>\<open>Check() CheckError\<close> and
  \<^verbatim>\<open>GetReport(id string) (Report, CheckError)\<close>, both returning a failure.
\<close>

definition CheckError :: go_type where
  "CheckError = \<lparr>tname = ''main.CheckError'', kind = Struct, implementsError = True\<rparr>"

definition CheckService :: service_instance where
  "CheckService =
     \<lparr>addr = 4,
      dyn_methods =
        [mk_method ''Check'' (pointer_type ''*main.CheckService'') [] [CheckError],
         mk_method ''GetReport'' (pointer_type ''*main.CheckService'') [string_type]
           [struct_type ''main.Report'', CheckError]],
      invoke = (\<lambda>n args.
        if n = ''Check'' \<and> args = []
        then Some [\<lparr>vtype = CheckError, vdata = Content ''invalid''\<rparr>]
        else if n = ''GetReport'' \<and> length args = 1
        then Some [\<lparr>vtype = struct_type ''main.Report'', vdata = Content []\<rparr>,
                   \<lparr>vtype = CheckError, vdata = Content ''invalid''\<rparr>]
        else None)\<rparr>"

text \<open>A request with the given path values and a body that decodes to \<open>d\<close>.\<close>

definition request :: "(string \<times> string) list \<Rightarrow> go_data \<Rightarrow> RequestEvent" where
  "request pvs d =
     \<lparr>PathValue = (\<lambda>k. case map_of pvs k of None \<Rightarrow> [] | Some v \<Rightarrow> v),
      BindBody = (\<lambda>t. Inr d)\<rparr>"

text \<open>Unicode tables that leave every string as it is; the slugs below are ASCII.\<close>

definition identity_tables :: unicode_tables where
  "identity_tables = \<lparr>MapToUpper = (\<lambda>s. s), MapToLower = (\<lambda>s. s)\<rparr>"

section \<open>The slug conversion\<close>



















section \<open>Registration\<close>

lemma passes_checks_iff:
  "(PkgPath m = [] \<and> \<not> (NumIn (FuncType m) \<noteq> 1 \<and> NumIn (FuncType m) \<noteq> 2)
    \<and> \<not> (NumOut (FuncType m) \<noteq> 1 \<and> NumOut (FuncType m) \<noteq> 2)
    \<and> implementsError (Out (FuncType m) (NumOut (FuncType m) - 1)))
   = eligible m"
proof (cases "Results (FuncType m) = []")
  case True
  then show ?thesis by (simp add: eligible_def NumOut_def)
next
  case False
  then have "Out (FuncType m) (NumOut (FuncType m) - 1) = last (Results (FuncType m))"
    by (simp add: Out_def NumOut_def last_conv_nth)
  then show ?thesis
    by (auto simp: eligible_def exported_def NumIn_def NumOut_def)
qed

lemma register_methods_Cons:
  "register_methods (m # rest) ms =
   register_methods rest (if eligible m then ms(Name m \<mapsto> methodInfo m) else ms)"
  using passes_checks_iff [of m] by (auto simp: Let_def)

lemma find_SomeD: "find P xs = Some x \<Longrightarrow> x \<in> set xs \<and> P x"
  by (induction xs) (auto split: if_splits)

lemma find_snoc:
  "find P (xs @ [x]) = (case find P xs of Some y \<Rightarrow> Some y | None \<Rightarrow> if P x then Some x else None)"
  by (induction xs) auto

lemma register_methods_lookup:
  "register_methods ms acc k =
   (case find (\<lambda>m. eligible m \<and> Name m = k) (rev ms) of
      Some m \<Rightarrow> Some (methodInfo m)
    | None \<Rightarrow> acc k)"
proof (induction ms arbitrary: acc)
  case Nil
  then show ?case by simp
next
  case (Cons m rest)
  show ?case
    unfolding register_methods_Cons Cons.IH
    by (simp add: find_snoc split: option.splits)
qed

lemma register_methods_stored:
  assumes "register_methods ms Map.empty k = Some d"
  shows "\<exists>m \<in> set ms. eligible m \<and> Name m = k \<and> d = methodInfo m"
proof -
  from assms obtain m where f: "find (\<lambda>m. eligible m \<and> Name m = k) (rev ms) = Some m"
    and d: "d = methodInfo m"
    by (auto simp: register_methods_lookup split: option.splits)
  from f have "m \<in> set ms \<and> eligible m \<and> Name m = k"
    using find_SomeD [OF f] by simp
  with d show ?thesis by blast
qed

lemma register_methods_dom:
  "dom (register_methods ms Map.empty) = Name ` {m \<in> set ms. eligible m}"
proof (rule set_eqI)
  fix k
  show "k \<in> dom (register_methods ms Map.empty) \<longleftrightarrow> k \<in> Name ` {m \<in> set ms. eligible m}"
  proof
    assume "k \<in> dom (register_methods ms Map.empty)"
    then obtain d where "register_methods ms Map.empty k = Some d" by blast
    from register_methods_stored [OF this] show "k \<in> Name ` {m \<in> set ms. eligible m}"
      by blast
  next
    assume "k \<in> Name ` {m \<in> set ms. eligible m}"
    then obtain m where "m \<in> set (rev ms)" "eligible m \<and> Name m = k" by auto
    then have "find (\<lambda>m. eligible m \<and> Name m = k) (rev ms) \<noteq> None"
      by (auto simp: find_None_iff)
    then show "k \<in> dom (register_methods ms Map.empty)"
      by (auto simp: register_methods_lookup split: option.splits)
  qed
qed

lemma register_methods_distinct:
  assumes dist: "distinct (map Name ms)" and mem: "m \<in> set ms"
  shows "register_methods ms Map.empty (Name m) = (if eligible m then Some (methodInfo m) else None)"
proof -
  have inj: "\<And>x. x \<in> set ms \<Longrightarrow> Name x = Name m \<Longrightarrow> x = m"
    using dist mem by (meson distinct_map inj_onD)
  show ?thesis
  proof (cases "find (\<lambda>x. eligible x \<and> Name x = Name m) (rev ms)")
    case None
    then have "\<not> eligible m" using mem by (auto simp: find_None_iff)
    with None show ?thesis by (simp add: register_methods_lookup)
  next
    case (Some x)
    then have "x \<in> set ms" "eligible x" "Name x = Name m"
      using find_SomeD [OF Some] by simp_all
    with inj have "x = m" "eligible m" by auto
    with Some show ?thesis by (simp add: register_methods_lookup)
  qed
qed

lemma services_RegisterService:
  "services (snd (RegisterService s name srv)) =
   (services s)(name \<mapsto>
      \<lparr>service = srv,
       methods = (case srv of None \<Rightarrow> Map.empty
                  | Some inst \<Rightarrow> register_methods (dyn_methods inst) Map.empty),
       serviceName = name\<rparr>)"
  by (simp add: RegisterService_def split: option.splits)

lemma registered_RegisterService:
  "registered (snd (RegisterService s name (Some inst))) name inst"
  by (simp add: registered_def services_RegisterService)

lemma Method_methodInfo: "Method (methodInfo m) = m"
  by (simp add: methodInfo_def Let_def)

lemma methodInfo_eligible:
  assumes "eligible m"
  shows "(HasParams (methodInfo m) \<longleftrightarrow> Type (methodInfo m) \<noteq> None)
       \<and> (HasParams (methodInfo m) \<longrightarrow>
            (\<exists>T. Type (methodInfo m) = Some T \<and> Params (FuncType m) = [T]))
       \<and> (\<not> HasParams (methodInfo m) \<longrightarrow> Params (FuncType m) = [])
       \<and> (HasResult (methodInfo m) \<longleftrightarrow> ResultType (methodInfo m) \<noteq> None)
       \<and> (HasResult (methodInfo m) \<longrightarrow>
            (\<exists>R E. ResultType (methodInfo m) = Some R \<and> Results (FuncType m) = [R, E]))
       \<and> (\<not> HasResult (methodInfo m) \<longrightarrow> (\<exists>E. Results (FuncType m) = [E]))"
proof -
  from assms have p: "Params (FuncType m) = [] \<or> (\<exists>T. Params (FuncType m) = [T])"
    by (auto simp: eligible_def length_Suc_conv)
  from assms have r: "(\<exists>E. Results (FuncType m) = [E]) \<or> (\<exists>R E. Results (FuncType m) = [R, E])"
    by (auto simp: eligible_def length_Suc_conv numeral_2_eq_2)
  from p r show ?thesis
    by (auto simp: methodInfo_def Let_def NumIn_def NumOut_def In_def Out_def)
qed

text \<open>
  Claim C1. Registering a non-nil instance succeeds (the error returned is nil) and stores
  under the name a descriptor of that instance whose method map has as keys exactly the
  names of the eligible methods of the instance: those that are exported, take no
  parameter or exactly one beyond the receiver, and return one value or two, the last of
  which implements \<^verbatim>\<open>error\<close>. Every stored descriptor is that of an eligible method of
  the instance, under its name; and, method names being distinct, a method of the
  instance is stored if and only if it is eligible.
\<close>

theorem RegisterService_stores_exactly_eligible:
  "fst (RegisterService s name (Some inst)) = None
   \<and> (\<exists>svc. services (snd (RegisterService s name (Some inst))) name = Some svc
        \<and> service svc = Some inst
        \<and> dom (methods svc) = Name ` {m \<in> set (dyn_methods inst). eligible m}
        \<and> (\<forall>k d. methods svc k = Some d \<longrightarrow>
              Method d \<in> set (dyn_methods inst) \<and> eligible (Method d) \<and> Name (Method d) = k)
        \<and> (distinct_names inst \<longrightarrow>
              (\<forall>m \<in> set (dyn_methods inst).
                 (\<exists>d. methods svc (Name m) = Some d \<and> Method d = m) \<longleftrightarrow> eligible m)))"
proof -
  let ?ms = "register_methods (dyn_methods inst) Map.empty"
  let ?svc = "\<lparr>service = Some inst, methods = ?ms, serviceName = name\<rparr>"
  have e: "fst (RegisterService s name (Some inst)) = None"
    by (simp add: RegisterService_def)
  have st: "services (snd (RegisterService s name (Some inst))) name = Some ?svc"
    by (simp add: services_RegisterService)
  have only: "\<forall>k d. ?ms k = Some d \<longrightarrow>
              Method d \<in> set (dyn_methods inst) \<and> eligible (Method d) \<and> Name (Method d) = k"
    using register_methods_stored [of "dyn_methods inst"] by (fastforce simp: Method_methodInfo)
  have each: "distinct_names inst \<longrightarrow>
              (\<forall>m \<in> set (dyn_methods inst).
                 (\<exists>d. ?ms (Name m) = Some d \<and> Method d = m) \<longleftrightarrow> eligible m)"
    by (auto simp: distinct_names_def register_methods_distinct Method_methodInfo)
  show ?thesis
    using e st only each register_methods_dom [of "dyn_methods inst"] by simp
qed

lemma TestService_eligible:
  "filter eligible TestService_methods =
     [mk_method ''CreateUser'' TestService_type [TestRequest] [TestResponse, error_type],
      mk_method ''GetStats'' TestService_type [] [StatsResponse, error_type],
      mk_method ''GetUser'' TestService_type [string_type] [TestResponse, error_type],
      mk_method ''RefreshCache'' TestService_type [] [error_type],
      mk_method ''UpdateUser'' TestService_type [TestRequest] [TestResponse, error_type]]"
  by code_simp

text \<open>
  The theorem at \<^verbatim>\<open>TestService\<close>: its five eligible methods are the keys, and
  \<^verbatim>\<open>InvalidMethod1\<close> and \<^verbatim>\<open>InvalidMethod2\<close> are absent, as
  \<^verbatim>\<open>TestRegisterService_ValidMethods\<close> expects.
\<close>

theorem RegisterService_stores_exactly_eligible_witness:
  "\<exists>svc. services (snd (RegisterService NewServer ''test'' (Some TestService))) ''test'' = Some svc
      \<and> dom (methods svc) =
          {''CreateUser'', ''GetStats'', ''GetUser'', ''RefreshCache'', ''UpdateUser''}
      \<and> distinct_names TestService
      \<and> (\<exists>d. methods svc ''RefreshCache'' = Some d
             \<and> Method d = mk_method ''RefreshCache'' TestService_type [] [error_type])
      \<and> methods svc ''InvalidMethod1'' = None
      \<and> methods svc ''InvalidMethod2'' = None"
proof -
  let ?refresh = "mk_method ''RefreshCache'' TestService_type [] [error_type]"
  have n: "Name ` {m \<in> set (dyn_methods TestService). eligible m} =
           {''CreateUser'', ''GetStats'', ''GetUser'', ''RefreshCache'', ''UpdateUser''}"
  proof -
    have "{m \<in> set (dyn_methods TestService). eligible m} = set (filter eligible TestService_methods)"
      by (simp add: TestService_def)
    then show ?thesis
      by (simp only: TestService_eligible) (simp add: mk_method_def)
  qed
  have d: "distinct_names TestService" unfolding distinct_names_def by code_simp
  have mem: "?refresh \<in> set (dyn_methods TestService)"
    by (simp add: TestService_def TestService_methods_def)
  have el: "eligible ?refresh" by code_simp
  from RegisterService_stores_exactly_eligible [of NewServer "''test''" TestService]
  obtain svc where
    s: "services (snd (RegisterService NewServer ''test'' (Some TestService))) ''test'' = Some svc"
    and dm: "dom (methods svc) = Name ` {m \<in> set (dyn_methods TestService). eligible m}"
    and each: "distinct_names TestService \<longrightarrow>
              (\<forall>m \<in> set (dyn_methods TestService).
                 (\<exists>d. methods svc (Name m) = Some d \<and> Method d = m) \<longleftrightarrow> eligible m)"
    by blast
  from each d mem el have "\<exists>d. methods svc (Name ?refresh) = Some d \<and> Method d = ?refresh"
    by blast
  then have r: "\<exists>d. methods svc ''RefreshCache'' = Some d \<and> Method d = ?refresh"
    by (simp add: mk_method_def)
  from dm n have dm': "dom (methods svc) =
      {''CreateUser'', ''GetStats'', ''GetUser'', ''RefreshCache'', ''UpdateUser''}" by simp
  then have "''InvalidMethod1'' \<notin> dom (methods svc)" "''InvalidMethod2'' \<notin> dom (methods svc)"
    by simp_all
  then have "methods svc ''InvalidMethod1'' = None" "methods svc ''InvalidMethod2'' = None"
    by blast+
  with s dm' d r show ?thesis by blast
qed

text \<open>
  Claim C7. \<^verbatim>\<open>RegisterService\<close> never fails: whatever the name and the instance, nil or
  not, with eligible methods or without, the error it returns is nil and the name is
  registered afterwards; a nil instance leaves the name registered with an empty method
  map.
\<close>

theorem RegisterService_never_fails:
  "fst (RegisterService s name srv) = None
   \<and> services (snd (RegisterService s name srv)) name \<noteq> None
   \<and> services (snd (RegisterService s name None)) name =
       Some \<lparr>service = None, methods = Map.empty, serviceName = name\<rparr>"
  by (simp add: RegisterService_def Let_def split: option.splits)

text \<open>
  Claim C9. Every descriptor \<open>d\<close> that \<^verbatim>\<open>RegisterService\<close> stores, under a key \<open>k\<close>,
  is consistent: \<^verbatim>\<open>HasParams\<close> holds exactly when \<^verbatim>\<open>Type\<close> is not nil, and
  \<^verbatim>\<open>Type\<close> is then the type of the only parameter of the method; \<^verbatim>\<open>HasResult\<close> holds
  exactly when \<^verbatim>\<open>ResultType\<close> is not nil, and \<^verbatim>\<open>ResultType\<close> is then the first of the
  method's two result types; and \<open>k\<close> is the name of the method as declared.
\<close>

theorem RegisterService_descriptors_consistent:
  assumes "services (snd (RegisterService s name srv)) name = Some svc"
    and "methods svc k = Some d"
  shows "(HasParams d \<longleftrightarrow> Type d \<noteq> None)
       \<and> (HasParams d \<longrightarrow> (\<exists>T. Type d = Some T \<and> Params (FuncType (Method d)) = [T]))
       \<and> (HasResult d \<longleftrightarrow> ResultType d \<noteq> None)
       \<and> (HasResult d \<longrightarrow>
            (\<exists>R E. ResultType d = Some R \<and> Results (FuncType (Method d)) = [R, E]))
       \<and> Name (Method d) = k"
proof (cases srv)
  case None
  with assms show ?thesis by (auto simp: services_RegisterService)
next
  case (Some inst)
  with assms have "register_methods (dyn_methods inst) Map.empty k = Some d"
    by (auto simp: services_RegisterService)
  from register_methods_stored [OF this] obtain m where
    m: "eligible m" "Name m = k" "d = methodInfo m" by blast
  from methodInfo_eligible [OF m(1)] m(2,3) show ?thesis
    by (simp add: Method_methodInfo)
qed

text \<open>
  Claim C10. \<^verbatim>\<open>RegisterService\<close> for a name \<open>n\<close> leaves the registry entry of every
  other name \<open>m\<close> as it was: the same descriptor, or none.
\<close>

theorem RegisterService_frame:
  "m \<noteq> n \<Longrightarrow> services (snd (RegisterService s n srv)) m = services s m"
  by (simp add: services_RegisterService)

text \<open>
  Claim C6. Registering \<open>b\<close> under a name already taken by \<open>a\<close> gives the same result
  as registering \<open>b\<close> alone; the entry of the name is then the descriptor built from
  \<open>b\<close> only (the one a fresh server would hold), so that a request for any method name that
  \<open>b\<close> does not publish, on either route, is answered NotFound without any call, whatever
  \<open>a\<close> published.
\<close>

theorem RegisterService_replaces:
  "RegisterService (snd (RegisterService s n a)) n b = RegisterService s n b
   \<and> services (snd (RegisterService (snd (RegisterService s n a)) n b)) n =
       services (snd (RegisterService NewServer n b)) n
   \<and> (\<forall>k. k \<notin> eligible_names b \<longrightarrow>
         handleRPC (snd (RegisterService (snd (RegisterService s n a)) n b)) e n k =
           ([], JSON StatusNotFound (method_not_found k n)))
   \<and> (\<forall>entity ident. ''Get'' @ entity \<notin> eligible_names b \<longrightarrow>
         handleRPCGet (snd (RegisterService (snd (RegisterService s n a)) n b)) e n entity ident =
           ([], JSON StatusNotFound (method_not_found (''Get'' @ entity) n)))"
proof -
  have eq: "RegisterService (snd (RegisterService s n a)) n b = RegisterService s n b"
    by (cases a; cases b) (simp_all add: RegisterService_def)
  have absent: "\<And>k. k \<notin> eligible_names b \<Longrightarrow>
      (case b of None \<Rightarrow> Map.empty | Some inst \<Rightarrow> register_methods (dyn_methods inst) Map.empty) k
        = None"
    using register_methods_dom by (cases b) (auto simp: eligible_names_def)
  show ?thesis
    using absent
    by (simp add: eq services_RegisterService handleRPC_def handleRPCGet_def)
qed

lemma TestService_GetStats:
  "register_methods (dyn_methods TestService) Map.empty ''GetStats'' =
     Some \<lparr>Method = mk_method ''GetStats'' TestService_type [] [StatsResponse, error_type],
           Type = None, HasParams = False, HasResult = True,
           ResultType = Some StatsResponse\<rparr>"
  by code_simp

text \<open>The theorem at the descriptor of \<^verbatim>\<open>GetStats\<close>, as in \<^verbatim>\<open>TestParameterlessMethods\<close>.\<close>

theorem RegisterService_descriptors_consistent_witness:
  "\<exists>svc d. services (snd (RegisterService NewServer ''test'' (Some TestService))) ''test'' = Some svc
      \<and> methods svc ''GetStats'' = Some d
      \<and> \<not> HasParams d \<and> Type d = None
      \<and> HasResult d \<and> ResultType d = Some StatsResponse
      \<and> Results (FuncType (Method d)) = [StatsResponse, error_type]
      \<and> Name (Method d) = ''GetStats''"
proof -
  let ?svc = "\<lparr>service = Some TestService,
               methods = register_methods (dyn_methods TestService) Map.empty,
               serviceName = ''test''\<rparr>"
  let ?d = "\<lparr>Method = mk_method ''GetStats'' TestService_type [] [StatsResponse, error_type],
             Type = None, HasParams = False, HasResult = True,
             ResultType = Some StatsResponse\<rparr>"
  have s: "services (snd (RegisterService NewServer ''test'' (Some TestService))) ''test''
           = Some ?svc"
    by (simp add: services_RegisterService)
  have m: "methods ?svc ''GetStats'' = Some ?d"
    by (simp add: TestService_GetStats)
  from RegisterService_descriptors_consistent [OF s m]
  have c: "(HasParams ?d \<longleftrightarrow> Type ?d \<noteq> None)
       \<and> (HasResult ?d \<longrightarrow>
            (\<exists>R E. ResultType ?d = Some R \<and> Results (FuncType (Method ?d)) = [R, E]))
       \<and> Name (Method ?d) = ''GetStats''"
    by blast
  have "\<not> HasParams ?d \<and> Type ?d = None \<and> HasResult ?d \<and> ResultType ?d = Some StatsResponse
        \<and> Results (FuncType (Method ?d)) = [StatsResponse, error_type]
        \<and> Name (Method ?d) = ''GetStats''"
    using c by (simp add: mk_method_def)
  with s m show ?thesis by blast
qed

text \<open>The theorem at a server with \<open>user\<close> registered, on registering \<open>order\<close>.\<close>

theorem RegisterService_frame_witness:
  "''user'' \<noteq> ''order''
   \<and> services (snd (RegisterService (snd (RegisterService NewServer ''user'' (Some TestService)))
                   ''order'' (Some JournalService))) ''user''
     = services (snd (RegisterService NewServer ''user'' (Some TestService))) ''user''
   \<and> services (snd (RegisterService NewServer ''user'' (Some TestService))) ''user'' \<noteq> None"
proof -
  have ne: "''user'' \<noteq> ''order''" by simp
  have r: "services (snd (RegisterService NewServer ''user'' (Some TestService))) ''user'' \<noteq> None"
    by (simp add: services_RegisterService)
  from RegisterService_frame [OF ne, of "snd (RegisterService NewServer ''user'' (Some TestService))"
      "Some JournalService"] ne r
  show ?thesis by simp
qed

lemma JournalService_names:
  "eligible_names (Some JournalService) = {''Flush'', ''GetEntry'', ''GetRange''}"
proof -
  have "filter eligible (dyn_methods JournalService) = dyn_methods JournalService"
    by code_simp
  then have "{m \<in> set (dyn_methods JournalService). eligible m} = set (dyn_methods JournalService)"
    by (metis set_filter)
  then show ?thesis
    by (simp add: eligible_names_def) (simp add: JournalService_def mk_method_def)
qed

text \<open>
  The theorem at \<^verbatim>\<open>TestService\<close> replaced by \<^verbatim>\<open>JournalService\<close>: \<^verbatim>\<open>CreateUser\<close> and
  \<^verbatim>\<open>GetUser\<close>, published by the former only, are not found any more.
\<close>

theorem RegisterService_replaces_witness:
  "''CreateUser'' \<in> eligible_names (Some TestService)
   \<and> ''CreateUser'' \<notin> eligible_names (Some JournalService)
   \<and> handleRPC (snd (RegisterService (snd (RegisterService NewServer ''test'' (Some TestService)))
                        ''test'' (Some JournalService)))
        (request [] NilData) ''test'' ''CreateUser''
      = ([], JSON StatusNotFound (method_not_found ''CreateUser'' ''test''))
   \<and> ''GetUser'' \<notin> eligible_names (Some JournalService)
   \<and> handleRPCGet (snd (RegisterService (snd (RegisterService NewServer ''test'' (Some TestService)))
                        ''test'' (Some JournalService)))
        (request [] NilData) ''test'' ''User'' ''42''
      = ([], JSON StatusNotFound (method_not_found ''GetUser'' ''test''))"
proof -
  have a: "''CreateUser'' \<in> eligible_names (Some TestService)"
  proof -
    have "mk_method ''CreateUser'' TestService_type [TestRequest] [TestResponse, error_type]
          \<in> set (filter eligible TestService_methods)"
      by (simp only: TestService_eligible) simp
    then have "mk_method ''CreateUser'' TestService_type [TestRequest] [TestResponse, error_type]
          \<in> {m \<in> set (dyn_methods TestService). eligible m}"
      by (simp add: TestService_def)
    then have "Name (mk_method ''CreateUser'' TestService_type [TestRequest] [TestResponse, error_type])
          \<in> eligible_names (Some TestService)"
      unfolding eligible_names_def option.case by (rule imageI)
    then show ?thesis by (simp add: mk_method_def)
  qed
  have b: "''CreateUser'' \<notin> eligible_names (Some JournalService)"
    and c: "''Get'' @ ''User'' \<notin> eligible_names (Some JournalService)"
    by (simp_all add: JournalService_names)
  note t = RegisterService_replaces [of NewServer "''test''" "Some TestService"
      "Some JournalService" "request [] NilData"]
  from t b have h1:
    "handleRPC (snd (RegisterService (snd (RegisterService NewServer ''test'' (Some TestService)))
                        ''test'' (Some JournalService)))
        (request [] NilData) ''test'' ''CreateUser''
      = ([], JSON StatusNotFound (method_not_found ''CreateUser'' ''test''))"
    by blast
  from t c have h2:
    "handleRPCGet (snd (RegisterService (snd (RegisterService NewServer ''test'' (Some TestService)))
                        ''test'' (Some JournalService)))
        (request [] NilData) ''test'' ''User'' ''42''
      = ([], JSON StatusNotFound (method_not_found (''Get'' @ ''User'') ''test''))"
    by blast
  from a b c h1 h2 show ?thesis by simp
qed

section \<open>Dispatch to a registered method\<close>

lemma find_by_name:
  assumes "distinct_names inst" and "m \<in> set (dyn_methods inst)"
  shows "find (\<lambda>x. Name x = Name m) (dyn_methods inst) = Some m"
proof (cases "find (\<lambda>x. Name x = Name m) (dyn_methods inst)")
  case None
  with assms(2) show ?thesis by (auto simp: find_None_iff)
next
  case (Some x)
  from find_SomeD [OF Some] have "x \<in> set (dyn_methods inst)" "Name x = Name m" by simp_all
  with assms have "x = m"
    unfolding distinct_names_def by (meson distinct_map inj_onD)
  with Some show ?thesis by simp
qed

lemma MethodByName_registered:
  assumes "distinct_names inst" and "m \<in> set (dyn_methods inst)"
  shows "MethodByName (Some inst) (Name m) = Inr (BoundMethod inst m)"
  by (simp add: MethodByName_def find_by_name [OF assms])

lemma registered_method:
  assumes "registered s sname inst" and "distinct_names inst"
    and "m \<in> set (dyn_methods inst)" and "eligible m"
  shows "\<exists>svc. services s sname = Some svc \<and> service svc = Some inst
           \<and> methods svc (Name m) = Some (methodInfo m)"
  using assms
  by (simp add: registered_def distinct_names_def register_methods_distinct)

lemma index_simps:
  "index (x # xs) 0 = Inr x" "index (x # y # xs) (Suc 0) = Inr y"
  "index [] i = Inl IndexOutOfRange"
  by (simp_all add: index_def)

lemma check_for_error_eligible:
  assumes el: "eligible m" and ty: "map vtype results = Results (FuncType m)"
  shows "check_for_error (methodInfo m) results =
     (case IsNil (last results) of
        Inl p \<Rightarrow> Panicked p
      | Inr isnil \<Rightarrow>
          if \<not> isnil then JSON StatusInternalServerError (ValueBody (last results))
          else if length (Results (FuncType m)) = 2 then JSON StatusOK (ValueBody (hd results))
          else JSON StatusOK (MapBody [(''status'', ''ok'')]))"
proof -
  from methodInfo_eligible [OF el]
  consider (two) R E where "HasResult (methodInfo m)" "Results (FuncType m) = [R, E]"
    | (one) E where "\<not> HasResult (methodInfo m)" "Results (FuncType m) = [E]"
    by blast
  then show ?thesis
  proof cases
    case two
    with ty obtain r e where rs: "results = [r, e]" "vtype e = E" by auto
    from el two(2) have "implementsError E" by (simp add: eligible_def)
    with rs two show ?thesis
      by (cases "IsNil e") (simp_all add: check_for_error_def index_simps assert_error_def)
  next
    case one
    with ty obtain e where rs: "results = [e]" "vtype e = E" by auto
    from el one(2) have "implementsError E" by (simp add: eligible_def)
    with rs one show ?thesis
      by (cases "IsNil e") (simp_all add: check_for_error_def index_simps assert_error_def)
  qed
qed

lemma handleRPC_registered:
  assumes "registered s sname inst" and "distinct_names inst"
    and "m \<in> set (dyn_methods inst)" and "eligible m"
  shows "handleRPC s e sname (Name m) =
     (case Params (FuncType m) of
        [] \<Rightarrow>
          ([Invoke (Name m) []],
           case invoke inst (Name m) [] of
             None \<Rightarrow> Panicked CallPanicked
           | Some results \<Rightarrow> check_for_error (methodInfo m) results)
      | T # _ \<Rightarrow>
          (case BindBody e T of
             Inl err \<Rightarrow> ([Bind T], JSON StatusBadRequest (invalid_parameters err))
           | Inr d \<Rightarrow>
               ([Bind T, Invoke (Name m) [\<lparr>vtype = T, vdata = d\<rparr>]],
                case invoke inst (Name m) [\<lparr>vtype = T, vdata = d\<rparr>] of
                  None \<Rightarrow> Panicked CallPanicked
                | Some results \<Rightarrow> check_for_error (methodInfo m) results)))"
proof -
  from registered_method [OF assms] obtain svc where
    svc: "services s sname = Some svc" "service svc = Some inst"
         "methods svc (Name m) = Some (methodInfo m)" by blast
  note mv = MethodByName_registered [OF assms(2,3)]
  from methodInfo_eligible [OF assms(4)]
  consider (none) "\<not> HasParams (methodInfo m)" "Params (FuncType m) = []"
    | (one) T where "HasParams (methodInfo m)" "Type (methodInfo m) = Some T"
        "Params (FuncType m) = [T]"
    by blast
  then show ?thesis
  proof cases
    case none
    with svc mv show ?thesis
      by (simp add: handleRPC_def Method_methodInfo Call_def split: option.splits)
  next
    case one
    with svc mv show ?thesis
      by (simp add: handleRPC_def Method_methodInfo Call_def Let_def split: option.splits sum.splits)
  qed
qed

lemma handleRPCGet_registered:
  assumes "registered s sname inst" and "distinct_names inst"
    and "m \<in> set (dyn_methods inst)" and "eligible m" and "''Get'' @ entity = Name m"
  shows "handleRPCGet s e sname entity ident =
     (case Params (FuncType m) of
        [] \<Rightarrow> ([], Panicked NilPointerDereference)
      | T # _ \<Rightarrow>
          if kind T \<noteq> String then ([], JSON StatusBadRequest (signature_mismatch (Name m)))
          else
            ([Invoke (Name m) [ValueOf_string ident]],
             case invoke inst (Name m) [ValueOf_string ident] of
               None \<Rightarrow> Panicked CallPanicked
             | Some results \<Rightarrow> check_for_error (methodInfo m) results))"
proof -
  from registered_method [OF assms(1-4)] obtain svc where
    svc: "services s sname = Some svc" "service svc = Some inst"
         "methods svc (Name m) = Some (methodInfo m)" by blast
  note mv = MethodByName_registered [OF assms(2,3)]
  from methodInfo_eligible [OF assms(4)]
  consider (none) "Type (methodInfo m) = None" "Params (FuncType m) = []"
    | (one) T where "Type (methodInfo m) = Some T" "Params (FuncType m) = [T]"
    by blast
  then show ?thesis
  proof cases
    case none
    with svc assms(5) show ?thesis
      by (simp add: handleRPCGet_def)
  next
    case one
    with svc mv assms(5) show ?thesis
      by (simp add: handleRPCGet_def Method_methodInfo Call_def Let_def split: option.splits)
  qed
qed

text \<open>
  Claim C4. On the route \<^verbatim>\<open>POST /{service}/{method}\<close>: when the service name is not a
  key of the registry, the handler answers with status NotFound and the service-not-found
  error; when the service is registered and the method name converted from the slug is
  not a key of its method map, it answers with status NotFound and the method-not-found
  error. In both cases the list of effects is empty: the body was not decoded and no
  method was called.
\<close>

theorem handle_not_found:
  "(services s (PathValue e ''service'') = None \<longrightarrow>
      handle U s e = ([], JSON StatusNotFound (service_not_found (PathValue e ''service''))))
   \<and> (\<forall>svc. services s (PathValue e ''service'') = Some svc
          \<and> methods svc (kebabToPascal U (PathValue e ''method'')) = None \<longrightarrow>
      handle U s e =
        ([], JSON StatusNotFound
               (method_not_found (kebabToPascal U (PathValue e ''method''))
                  (PathValue e ''service''))))"
  by (simp add: handle_def handleRPC_def)

text \<open>
  The theorem at a server holding \<^verbatim>\<open>TestService\<close> as \<open>test\<close>: a request for the
  service \<open>nope\<close>, and one for \<open>test/unknown-method\<close>.
\<close>

theorem handle_not_found_witness:
  "services (snd (RegisterService NewServer ''test'' (Some TestService))) ''nope'' = None
   \<and> handle identity_tables (snd (RegisterService NewServer ''test'' (Some TestService)))
        (request [(''service'', ''nope''), (''method'', ''create-user'')] NilData)
      = ([], JSON 404 (service_not_found ''nope''))
   \<and> handle identity_tables (snd (RegisterService NewServer ''test'' (Some TestService)))
        (request [(''service'', ''test''), (''method'', ''unknown-method'')] NilData)
      = ([], JSON 404 (method_not_found ''UnknownMethod'' ''test''))"
proof -
  let ?s = "snd (RegisterService NewServer ''test'' (Some TestService))"
  let ?e1 = "request [(''service'', ''nope''), (''method'', ''create-user'')] NilData"
  let ?e2 = "request [(''service'', ''test''), (''method'', ''unknown-method'')] NilData"
  let ?svc = "\<lparr>service = Some TestService,
               methods = register_methods (dyn_methods TestService) Map.empty,
               serviceName = ''test''\<rparr>"
  have p1: "PathValue ?e1 ''service'' = ''nope''"
    and p2: "PathValue ?e2 ''service'' = ''test''"
    and p3: "PathValue ?e2 ''method'' = ''unknown-method''"
    by (simp_all add: request_def)
  have k: "kebabToPascal identity_tables ''unknown-method'' = ''UnknownMethod''" by code_simp
  have n: "services ?s ''nope'' = None"
    by (simp add: services_RegisterService NewServer_def)
  have t: "services ?s ''test'' = Some ?svc"
    by (simp add: services_RegisterService)
  have u: "methods ?svc ''UnknownMethod'' = None"
  proof -
    have "register_methods (dyn_methods TestService) Map.empty ''UnknownMethod'' = None"
      by code_simp
    then show ?thesis by simp
  qed
  from handle_not_found [of ?s ?e1 identity_tables] n p1
  have a: "handle identity_tables ?s ?e1 = ([], JSON StatusNotFound (service_not_found ''nope''))"
    by simp
  from handle_not_found [of ?s ?e2 identity_tables] t u p2 p3 k
  have b: "handle identity_tables ?s ?e2 =
             ([], JSON StatusNotFound (method_not_found ''UnknownMethod'' ''test''))"
    by simp
  from n a b show ?thesis by (simp add: StatusNotFound_def)
qed

lemma post_args_cases:
  assumes "post_args e m = Some args"
  shows "(Params (FuncType m) = [] \<and> args = [])
       \<or> (\<exists>T d. Params (FuncType m) = [T] \<and> BindBody e T = Inr d
                \<and> args = [\<lparr>vtype = T, vdata = d\<rparr>])"
  using assms
  by (auto simp: post_args_def split: list.splits sum.splits)

lemma get_args_cases:
  assumes "get_args e m = Some args"
  shows "\<exists>T. Params (FuncType m) = [T] \<and> kind T = String
            \<and> args = [ValueOf_string (PathValue e ''id'')]"
  using assms
  by (auto simp: get_args_def split: list.splits if_splits)

lemma handle_returns:
  assumes "registered s (PathValue e ''service'') inst" and "distinct_names inst"
    and "m \<in> set (dyn_methods inst)" and "eligible m"
    and "kebabToPascal U (PathValue e ''method'') = Name m"
    and "post_args e m = Some args" and "returns inst m args results"
  shows "snd (handle U s e) = check_for_error (methodInfo m) results
         \<and> Invoke (Name m) args \<in> set (fst (handle U s e))"
proof -
  have h: "handle U s e = handleRPC s e (PathValue e ''service'') (Name m)"
    using assms(5) by (simp add: handle_def)
  from assms(7) have inv: "invoke inst (Name m) args = Some results"
    by (simp add: returns_def)
  from post_args_cases [OF assms(6)] inv show ?thesis
    unfolding h handleRPC_registered [OF assms(1-4)] by auto
qed

lemma handleGet_returns:
  assumes "registered s (PathValue e ''service'') inst" and "distinct_names inst"
    and "m \<in> set (dyn_methods inst)" and "eligible m"
    and "''Get'' @ kebabToPascal U (PathValue e ''entity'') = Name m"
    and "get_args e m = Some args" and "returns inst m args results"
  shows "snd (handleGet U s e) = check_for_error (methodInfo m) results
         \<and> Invoke (Name m) args \<in> set (fst (handleGet U s e))"
proof -
  have h: "handleGet U s e =
           handleRPCGet s e (PathValue e ''service'') (kebabToPascal U (PathValue e ''entity''))
             (PathValue e ''id'')"
    by (simp add: handleGet_def)
  from assms(7) have inv: "invoke inst (Name m) args = Some results"
    by (simp add: returns_def)
  from get_args_cases [OF assms(6)] inv show ?thesis
    unfolding h handleRPCGet_registered [OF assms(1-5)] by auto
qed

text \<open>
  Let a method of a registered service be called by either handler and return. If
  \<^verbatim>\<open>IsNil\<close> reports that the last of its results, the failure value, is not nil, the
  response has the status InternalServerError and as body that failure value itself,
  whether the method declares a result value before the failure or not.
\<close>

lemma method_failure_forwarded:
  assumes "registered s (PathValue e ''service'') inst" and "distinct_names inst"
    and "m \<in> set (dyn_methods inst)" and "eligible m"
    and "returns inst m args results" and "IsNil (last results) = Inr False"
  shows "(kebabToPascal U (PathValue e ''method'') = Name m \<and> post_args e m = Some args \<longrightarrow>
            snd (handle U s e) = JSON StatusInternalServerError (ValueBody (last results))
            \<and> Invoke (Name m) args \<in> set (fst (handle U s e)))
       \<and> (''Get'' @ kebabToPascal U (PathValue e ''entity'') = Name m
            \<and> get_args e m = Some args \<longrightarrow>
            snd (handleGet U s e) = JSON StatusInternalServerError (ValueBody (last results))
            \<and> Invoke (Name m) args \<in> set (fst (handleGet U s e)))"
proof -
  from assms(5) have ty: "map vtype results = Results (FuncType m)"
    by (simp add: returns_def)
  have c: "check_for_error (methodInfo m) results =
           JSON StatusInternalServerError (ValueBody (last results))"
    by (simp add: check_for_error_eligible [OF assms(4) ty] assms(6))
  show ?thesis
    using handle_returns [OF assms(1-4) _ _ assms(5), of U]
      handleGet_returns [OF assms(1-4) _ _ assms(5), of U]
    by (simp add: c)
qed

text \<open>
  Claim C8. Let a failure-only method (one result) of a registered service be called by
  either handler and return an empty failure (\<^verbatim>\<open>IsNil\<close> reports true). Then the
  response has the status OK and as body the map with the single entry
  \<open>status\<close>: \<open>ok\<close>, on the \<^verbatim>\<open>POST\<close> route and on the \<^verbatim>\<open>GET\<close> route.
\<close>

theorem failure_only_success_marker:
  assumes "registered s (PathValue e ''service'') inst" and "distinct_names inst"
    and "m \<in> set (dyn_methods inst)" and "eligible m"
    and "length (Results (FuncType m)) = 1"
    and "returns inst m args results" and "IsNil (last results) = Inr True"
  shows "(kebabToPascal U (PathValue e ''method'') = Name m \<and> post_args e m = Some args \<longrightarrow>
            snd (handle U s e) = JSON StatusOK (MapBody [(''status'', ''ok'')]))
       \<and> (''Get'' @ kebabToPascal U (PathValue e ''entity'') = Name m
            \<and> get_args e m = Some args \<longrightarrow>
            snd (handleGet U s e) = JSON StatusOK (MapBody [(''status'', ''ok'')]))"
proof -
  from assms(6) have ty: "map vtype results = Results (FuncType m)"
    by (simp add: returns_def)
  have c: "check_for_error (methodInfo m) results = JSON StatusOK (MapBody [(''status'', ''ok'')])"
    by (simp add: check_for_error_eligible [OF assms(4) ty] assms(5,7))
  show ?thesis
    using handle_returns [OF assms(1-4) _ _ assms(6), of U]
      handleGet_returns [OF assms(1-4) _ _ assms(6), of U]
    by (simp add: c)
qed

text \<open>
  The lemma \<open>method_failure_forwarded\<close> at \<^verbatim>\<open>ProductsService\<close> over a failing store: \<^verbatim>\<open>Create\<close> (a result and
  a failure) and \<^verbatim>\<open>Delete\<close> (a failure only) by \<^verbatim>\<open>POST\<close>, \<^verbatim>\<open>GetProduct\<close> by
  \<^verbatim>\<open>GET\<close>.
\<close>

lemma method_failure_forwarded_example:
  "snd (handle identity_tables
          (snd (RegisterService NewServer ''products'' (Some (ProductsService_failing ''boom''))))
          (request [(''service'', ''products''), (''method'', ''create'')] (Content ''tea'')))
     = JSON 500 (ValueBody (an_error ''boom''))
   \<and> snd (handle identity_tables
          (snd (RegisterService NewServer ''products'' (Some (ProductsService_failing ''boom''))))
          (request [(''service'', ''products''), (''method'', ''delete'')] (Content ''tea'')))
     = JSON 500 (ValueBody (an_error ''boom''))
   \<and> snd (handleGet identity_tables
          (snd (RegisterService NewServer ''products'' (Some (ProductsService_failing ''boom''))))
          (request [(''service'', ''products''), (''entity'', ''product''), (''id'', ''42'')]
             NilData))
     = JSON 500 (ValueBody (an_error ''boom''))"
proof -
  let ?inst = "ProductsService_failing ''boom''"
  let ?s = "snd (RegisterService NewServer ''products'' (Some ?inst))"
  let ?e1 = "request [(''service'', ''products''), (''method'', ''create'')] (Content ''tea'')"
  let ?e2 = "request [(''service'', ''products''), (''method'', ''delete'')] (Content ''tea'')"
  let ?e3 = "request [(''service'', ''products''), (''entity'', ''product''), (''id'', ''42'')]
               NilData"
  let ?create = "mk_method ''Create'' ProductsService_type [Product] [Product, error_type]"
  let ?delete = "mk_method ''Delete'' ProductsService_type [struct_type ''main.DeleteRequest'']
                   [error_type]"
  let ?get = "mk_method ''GetProduct'' ProductsService_type [string_type] [Product, error_type]"
  let ?zero = "\<lparr>vtype = Product, vdata = Content []\<rparr>"
  let ?a1 = "[\<lparr>vtype = Product, vdata = Content ''tea''\<rparr>]"
  let ?a2 = "[\<lparr>vtype = struct_type ''main.DeleteRequest'', vdata = Content ''tea''\<rparr>]"
  let ?a3 = "[ValueOf_string ''42'']"
  have reg: "registered ?s (PathValue ?e1 ''service'') ?inst"
       "registered ?s (PathValue ?e2 ''service'') ?inst"
       "registered ?s (PathValue ?e3 ''service'') ?inst"
    using registered_RegisterService [of NewServer "''products''" ?inst]
    by (simp_all add: request_def)
  have dn: "distinct_names ?inst" by code_simp
  have mem: "?create \<in> set (dyn_methods ?inst)" "?delete \<in> set (dyn_methods ?inst)"
       "?get \<in> set (dyn_methods ?inst)"
    by (simp_all add: ProductsService_failing_def ProductsService_methods_def)
  have el: "eligible ?create" "eligible ?delete" "eligible ?get" by code_simp+
  have ret: "returns ?inst ?create ?a1 [?zero, an_error ''boom'']"
       "returns ?inst ?delete ?a2 [an_error ''boom'']"
       "returns ?inst ?get ?a3 [?zero, an_error ''boom'']"
    by code_simp+
  have nn: "IsNil (last [?zero, an_error ''boom'']) = Inr False"
       "IsNil (last [an_error ''boom'']) = Inr False"
    by code_simp+
  have nm: "kebabToPascal identity_tables (PathValue ?e1 ''method'') = Name ?create"
       "kebabToPascal identity_tables (PathValue ?e2 ''method'') = Name ?delete"
       "''Get'' @ kebabToPascal identity_tables (PathValue ?e3 ''entity'') = Name ?get"
    by code_simp+
  have ar: "post_args ?e1 ?create = Some ?a1" "post_args ?e2 ?delete = Some ?a2"
       "get_args ?e3 ?get = Some ?a3"
    by code_simp+
  from method_failure_forwarded [OF reg(1) dn mem(1) el(1) ret(1) nn(1), of identity_tables]
    nm(1) ar(1)
  have r1: "snd (handle identity_tables ?s ?e1)
            = JSON StatusInternalServerError (ValueBody (an_error ''boom''))"
    by simp
  from method_failure_forwarded [OF reg(2) dn mem(2) el(2) ret(2) nn(2), of identity_tables]
    nm(2) ar(2)
  have r2: "snd (handle identity_tables ?s ?e2)
            = JSON StatusInternalServerError (ValueBody (an_error ''boom''))"
    by simp
  from method_failure_forwarded [OF reg(3) dn mem(3) el(3) ret(3) nn(1), of identity_tables]
    nm(3) ar(3)
  have r3: "snd (handleGet identity_tables ?s ?e3)
            = JSON StatusInternalServerError (ValueBody (an_error ''boom''))"
    by simp
  from r1 r2 r3 show ?thesis by (simp add: StatusInternalServerError_def)
qed

text \<open>
  The theorem at \<^verbatim>\<open>JournalService\<close>: \<^verbatim>\<open>Flush\<close> by \<^verbatim>\<open>POST\<close> and \<^verbatim>\<open>GetEntry\<close> by
  \<^verbatim>\<open>GET\<close>.
\<close>

theorem failure_only_success_marker_witness:
  "snd (handle identity_tables (snd (RegisterService NewServer ''journal'' (Some JournalService)))
          (request [(''service'', ''journal''), (''method'', ''flush'')] NilData))
     = JSON 200 (MapBody [(''status'', ''ok'')])
   \<and> snd (handleGet identity_tables
            (snd (RegisterService NewServer ''journal'' (Some JournalService)))
            (request [(''service'', ''journal''), (''entity'', ''entry''), (''id'', ''7'')] NilData))
     = JSON 200 (MapBody [(''status'', ''ok'')])"
proof -
  let ?s = "snd (RegisterService NewServer ''journal'' (Some JournalService))"
  let ?e1 = "request [(''service'', ''journal''), (''method'', ''flush'')] NilData"
  let ?e2 = "request [(''service'', ''journal''), (''entity'', ''entry''), (''id'', ''7'')] NilData"
  let ?flush = "mk_method ''Flush'' (pointer_type ''*main.JournalService'') [] [error_type]"
  let ?get = "mk_method ''GetEntry'' (pointer_type ''*main.JournalService'') [string_type]
                [error_type]"
  have reg: "registered ?s (PathValue ?e1 ''service'') JournalService"
       "registered ?s (PathValue ?e2 ''service'') JournalService"
    using registered_RegisterService [of NewServer "''journal''" JournalService]
    by (simp_all add: request_def)
  have dn: "distinct_names JournalService" by code_simp
  have mem: "?flush \<in> set (dyn_methods JournalService)" "?get \<in> set (dyn_methods JournalService)"
    by (simp_all add: JournalService_def)
  have el: "eligible ?flush" "eligible ?get" by code_simp+
  have one: "length (Results (FuncType ?flush)) = 1" "length (Results (FuncType ?get)) = 1"
    by (simp_all add: mk_method_def)
  have ret: "returns JournalService ?flush [] [nil_error]"
       "returns JournalService ?get [ValueOf_string ''7''] [nil_error]"
    by code_simp+
  have nil: "IsNil (last [nil_error]) = Inr True" by code_simp
  have nm: "kebabToPascal identity_tables (PathValue ?e1 ''method'') = Name ?flush"
       "''Get'' @ kebabToPascal identity_tables (PathValue ?e2 ''entity'') = Name ?get"
    by code_simp+
  have ar: "post_args ?e1 ?flush = Some []" "get_args ?e2 ?get = Some [ValueOf_string ''7'']"
    by code_simp+
  from failure_only_success_marker [OF reg(1) dn mem(1) el(1) one(1) ret(1) nil,
      of identity_tables] nm(1) ar(1)
  have r1: "snd (handle identity_tables ?s ?e1) = JSON StatusOK (MapBody [(''status'', ''ok'')])"
    by simp
  from failure_only_success_marker [OF reg(2) dn mem(2) el(2) one(2) ret(2) nil,
      of identity_tables] nm(2) ar(2)
  have r2: "snd (handleGet identity_tables ?s ?e2) = JSON StatusOK (MapBody [(''status'', ''ok'')])"
    by simp
  from r1 r2 show ?thesis by (simp add: StatusOK_def)
qed

lemma handleGet_signature_mismatch:
  assumes "registered s (PathValue e ''service'') inst" and "distinct_names inst"
    and "m \<in> set (dyn_methods inst)" and "eligible m"
    and "''Get'' @ kebabToPascal U (PathValue e ''entity'') = Name m"
    and "Params (FuncType m) = [T]" and "kind T \<noteq> String"
  shows "handleGet U s e = ([], JSON StatusBadRequest (signature_mismatch (Name m)))"
  using assms(6,7)
  by (simp add: handleGet_def handleRPCGet_registered [OF assms(1-5)])

lemma handleGet_GetRange_mismatch:
  "handleGet identity_tables (snd (RegisterService NewServer ''journal'' (Some JournalService)))
     (request [(''service'', ''journal''), (''entity'', ''range''), (''id'', ''7'')] NilData)
   = ([], JSON 400 (ErrorfBody (''Method '' @ quoted ''GetRange''
                                @ '' does not accept a string parameter'')))"
  by code_simp

lemma handleGet_parameterless:
  assumes "registered s (PathValue e ''service'') inst" and "distinct_names inst"
    and "m \<in> set (dyn_methods inst)" and "eligible m"
    and "''Get'' @ kebabToPascal U (PathValue e ''entity'') = Name m"
    and "Params (FuncType m) = []"
  shows "handleGet U s e = ([], Panicked NilPointerDereference)"
  using assms(6)
  by (simp add: handleGet_def handleRPCGet_registered [OF assms(1-5)])

text \<open>
  Claim C2 says that a \<^verbatim>\<open>GET\<close> request resolving to a registered method whose
  parameter is not a single string, a method without parameter included, is answered
  BadRequest without a call. For a method with one parameter of another kind that is
  what \<^verbatim>\<open>handleRPCGet\<close> does (\<open>handleGet_signature_mismatch\<close>). For a method
  without parameter the descriptor's \<^verbatim>\<open>Type\<close> is nil, and the handler panics on
  \<^verbatim>\<open>argType.Kind()\<close> before it writes any response (\<open>handleGet_parameterless\<close>). The
  theorem evaluates the handler at \<^verbatim>\<open>GET /test/stats/1\<close> with \<^verbatim>\<open>TestService\<close> registered
  as \<open>test\<close>: \<^verbatim>\<open>GetStats\<close> takes no parameter, no method is called, and the outcome is
  the panic, not the BadRequest response.
\<close>

theorem handleGet_GetStats_panics:
  "Params (FuncType (mk_method ''GetStats'' TestService_type [] [StatsResponse, error_type])) = []
   \<and> handleGet identity_tables (snd (RegisterService NewServer ''test'' (Some TestService)))
       (request [(''service'', ''test''), (''entity'', ''stats''), (''id'', ''1'')] NilData)
     = ([], Panicked NilPointerDereference)
   \<and> handleGet identity_tables (snd (RegisterService NewServer ''test'' (Some TestService)))
       (request [(''service'', ''test''), (''entity'', ''stats''), (''id'', ''1'')] NilData)
     \<noteq> ([], JSON StatusBadRequest (signature_mismatch ''GetStats''))"
proof -
  have "handleGet identity_tables (snd (RegisterService NewServer ''test'' (Some TestService)))
       (request [(''service'', ''test''), (''entity'', ''stats''), (''id'', ''1'')] NilData)
     = ([], Panicked NilPointerDereference)"
    by code_simp
  then show ?thesis by (simp add: mk_method_def)
qed

text \<open>
  Claim C5 says that every call whose failure value is not empty is answered with the
  status InternalServerError and that value as body. That is what the handlers do when
  \<^verbatim>\<open>IsNil\<close> is defined on the failure value (\<open>method_failure_forwarded\<close>).
  \<^verbatim>\<open>RegisterService\<close> however accepts as failure type any type that implements
  \<^verbatim>\<open>error\<close>, of whatever kind. The theorem evaluates both handlers on \<^verbatim>\<open>CheckService\<close>,
  whose failure type is a struct: the methods are eligible and registered, each is called
  and returns a failure, and the handler then panics in \<^verbatim>\<open>IsNil\<close> instead of writing a
  response.
\<close>

theorem handle_struct_failure_panics:
  "eligible (mk_method ''Check'' (pointer_type ''*main.CheckService'') [] [CheckError])
   \<and> eligible (mk_method ''GetReport'' (pointer_type ''*main.CheckService'') [string_type]
                [struct_type ''main.Report'', CheckError])
   \<and> invoke CheckService ''Check'' []
       = Some [\<lparr>vtype = CheckError, vdata = Content ''invalid''\<rparr>]
   \<and> handle identity_tables (snd (RegisterService NewServer ''check'' (Some CheckService)))
        (request [(''service'', ''check''), (''method'', ''check'')] NilData)
       = ([Invoke ''Check'' []], Panicked (IsNilOnKind Struct))
   \<and> handleGet identity_tables (snd (RegisterService NewServer ''check'' (Some CheckService)))
        (request [(''service'', ''check''), (''entity'', ''report''), (''id'', ''7'')] NilData)
       = ([Invoke ''GetReport'' [ValueOf_string ''7'']], Panicked (IsNilOnKind Struct))"
proof -
  have e1: "eligible (mk_method ''Check'' (pointer_type ''*main.CheckService'') [] [CheckError])"
    by code_simp
  have e2: "eligible (mk_method ''GetReport'' (pointer_type ''*main.CheckService'') [string_type]
                [struct_type ''main.Report'', CheckError])"
    by code_simp
  have i: "invoke CheckService ''Check'' []
       = Some [\<lparr>vtype = CheckError, vdata = Content ''invalid''\<rparr>]"
    by code_simp
  have h1: "handle identity_tables (snd (RegisterService NewServer ''check'' (Some CheckService)))
        (request [(''service'', ''check''), (''method'', ''check'')] NilData)
       = ([Invoke ''Check'' []], Panicked (IsNilOnKind Struct))"
    by code_simp
  have h2: "handleGet identity_tables (snd (RegisterService NewServer ''check'' (Some CheckService)))
        (request [(''service'', ''check''), (''entity'', ''report''), (''id'', ''7'')] NilData)
       = ([Invoke ''GetReport'' [ValueOf_string ''7'']], Panicked (IsNilOnKind Struct))"
    by code_simp
  from e1 e2 i h1 h2 show ?thesis by blast
qed

end
